theory Spec2Isabelle
  imports Complex_Main "HOL-Library.Product_Lexorder" "HOL-Library.Option_ord"
    "HOL-Library.Multiset"
begin

section \<open>Paraxial ray tracing: the optical system of \<^verbatim>\<open>raytracing.py\<close>\<close>

text \<open>
  The source computes with Python and numpy floats. Here every float is a real number:
  rounding is not modelled, so \<open>current_angle += angle_step\<close> is exact addition and the
  tolerance \<open>1e-10\<close> is the rational \<open>1 / 10 ^ 10\<close>. Two places of the program leave the
  real numbers, and the model follows the program there instead of HOL's \<open>x / 0 = 0\<close>:
  the division \<open>0 / 0\<close> in the interpolation of \<^verbatim>\<open>find_convergence\<close>, whose \<^verbatim>\<open>nan\<close> is a
  value of its own, and the tangent of 90 degrees in \<^verbatim>\<open>find_marginal_rays\<close>, where
  \<^verbatim>\<open>np.tan\<close> is a parameter.
\<close>

subsection \<open>Data model\<close>

text \<open>The tags \<^verbatim>\<open>'transfer'\<close>, \<^verbatim>\<open>'refraction'\<close> of an entry of
  \<^verbatim>\<open>self.matrices\<close> and \<^verbatim>\<open>'lens'\<close>, \<^verbatim>\<open>'iris'\<close> of an entry of
  \<^verbatim>\<open>self.optical_elements\<close>.\<close>

datatype op_kind = Transfer | Refraction

datatype elem_kind = Lens | Iris

text \<open>A 2x2 numpy array, as its two rows, and the ray vector \<open>[y, w]\<close>.\<close>

type_synonym matrix = "(real \<times> real) \<times> (real \<times> real)"

type_synonym ray = "real \<times> real"

type_synonym transfer_op = "op_kind \<times> matrix \<times> real"

type_synonym optical_element = "elem_kind \<times> real \<times> real"

type_synonym path = "(real \<times> real) list"

record optical_system =
  matrices :: "transfer_op list"
  optical_elements :: "optical_element list"
  object_height :: "real option"
  STOP_optic :: "optical_element option"

definition tol :: real where
  "tol = 1 / 10 ^ 10"

text \<open>\<^verbatim>\<open>OpticalSystem.__init__\<close>\<close>

definition init_system :: optical_system where
  "init_system = \<lparr>matrices = [], optical_elements = [], object_height = None, STOP_optic = None\<rparr>"

definition set_object_height :: "optical_system \<Rightarrow> real \<Rightarrow> optical_system" where
  "set_object_height s height = s\<lparr>object_height := Some height\<rparr>"

definition add_transfer :: "optical_system \<Rightarrow> real \<Rightarrow> optical_system" where
  "add_transfer s distance =
     s\<lparr>matrices := matrices s @ [(Transfer, ((1, distance), (0, 1)), distance)]\<rparr>"

definition add_refraction :: "optical_system \<Rightarrow> real \<Rightarrow> real \<Rightarrow> real \<Rightarrow> optical_system" where
  "add_refraction s position power' diameter =
     s\<lparr>matrices := matrices s @ [(Refraction, ((1, 0), (- power', 1)), 0)],
       optical_elements := optical_elements s @ [(Lens, position, diameter)]\<rparr>"

definition add_iris :: "optical_system \<Rightarrow> real \<Rightarrow> real \<Rightarrow> optical_system" where
  "add_iris s position diameter =
     s\<lparr>optical_elements := optical_elements s @ [(Iris, position, diameter)]\<rparr>"

subsection \<open>\<^verbatim>\<open>trace_ray\<close>\<close>

text \<open>\<^verbatim>\<open>matrix @ ray\<close>: the product of a 2x2 matrix with the column vector \<open>[y, w]\<close>.\<close>

fun matvec :: "matrix \<Rightarrow> ray \<Rightarrow> ray" where
  "matvec ((a, b), (c, d)) (y, w) = (a * y + b * w, c * y + d * w)"

text \<open>The test of the inner loop for one element of the registry.\<close>

fun blocks :: "optical_element \<Rightarrow> real \<Rightarrow> real \<Rightarrow> bool" where
  "blocks (elem_type_check, pos, diameter) current_z y =
     (\<bar>pos - current_z\<bar> < tol \<and> \<bar>y\<bar> > diameter / 2)"

text \<open>The inner \<^verbatim>\<open>for\<close> loop over the registry: does it reach its \<^verbatim>\<open>return path\<close>?\<close>

fun blocked :: "optical_element list \<Rightarrow> real \<Rightarrow> real \<Rightarrow> bool" where
  "blocked [] current_z y = False"
| "blocked (e # es) current_z y = (if blocks e current_z y then True else blocked es current_z y)"

text \<open>The outer loop over \<^verbatim>\<open>self.matrices\<close>, from the local state \<open>(ray, current_z, path)\<close>.
  It yields the path that \<^verbatim>\<open>trace_ray\<close> returns together with the value of the local
  variable \<^verbatim>\<open>ray\<close> at that moment.\<close>

fun trace_loop ::
  "optical_element list \<Rightarrow> transfer_op list \<Rightarrow> ray \<Rightarrow> real \<Rightarrow> path \<Rightarrow> path \<times> ray" where
  "trace_loop es [] ray current_z path = (path, ray)"
| "trace_loop es ((elem_type, m, distance) # ops) ray current_z path =
     (let ray' = matvec m ray;
          current_z' = current_z + distance;
          y = fst ray';
          path' = path @ [(current_z', y)]
      in if blocked es current_z' y then (path', ray')
         else trace_loop es ops ray' current_z' path')"

definition trace_state :: "optical_system \<Rightarrow> real \<Rightarrow> real \<Rightarrow> path \<times> ray" where
  "trace_state s w0 y0 = trace_loop (optical_elements s) (matrices s) (y0, w0) 0 [(0, y0)]"

definition trace_ray :: "optical_system \<Rightarrow> real \<Rightarrow> real \<Rightarrow> path" where
  "trace_ray s w0 y0 = fst (trace_state s w0 y0)"

subsection \<open>\<^verbatim>\<open>find_marginal_rays\<close>\<close>

definition deg_to_rad :: "real \<Rightarrow> real" where
  "deg_to_rad deg = deg * pi / 180"

definition angle_step :: real where
  "angle_step = 1 / 100"

text \<open>\<^verbatim>\<open>sum(distance for _, _, distance in self.matrices if distance > 0)\<close>\<close>

definition total_distance :: "optical_system \<Rightarrow> real" where
  "total_distance s =
     sum_list (map (\<lambda>(_, _, distance). distance) (filter (\<lambda>(_, _, distance). distance > 0) (matrices s)))"

text \<open>The loop that looks for the optical element at \<open>final_z\<close>: the first element of the
  registry whose position matches is assigned to \<^verbatim>\<open>self.STOP_optic\<close>; without a match the
  field keeps its value.\<close>

fun find_stop :: "optical_element list \<Rightarrow> real \<Rightarrow> optical_element option" where
  "find_stop [] final_z = None"
| "find_stop ((elem_type, pos, diameter) # es) final_z =
     (if \<bar>pos - final_z\<bar> < tol then Some (elem_type, pos, diameter) else find_stop es final_z)"

definition record_stop :: "optical_system \<Rightarrow> real \<Rightarrow> optical_system" where
  "record_stop s final_z =
     (case find_stop (optical_elements s) final_z of
        None \<Rightarrow> s
      | Some e \<Rightarrow> s\<lparr>STOP_optic := Some e\<rparr>)"

text \<open>One pass of the body of \<^verbatim>\<open>while True\<close> up to the test of
  \<^verbatim>\<open>all_elements_passed\<close>: the flag and the system after the pass.\<close>

definition check_path :: "optical_system \<Rightarrow> path \<Rightarrow> bool \<times> optical_system" where
  "check_path s path =
     (if length path < 2 then (False, s)
      else let final_z = fst (last path)
           in if \<bar>final_z - total_distance s\<bar> > tol then (False, record_stop s final_z)
              else (True, s))"

text \<open>The \<^verbatim>\<open>while True\<close> loop. It has no bound in the source, so the model is a partial
  function: \<open>None\<close> is the run that never returns. A returning run yields the returned list
  and the system as the run leaves it.

  \<open>np_tan\<close> stands for \<^verbatim>\<open>np.tan\<close>. The real tangent does not exist at 90 degrees, which
  is the 9000th candidate angle, nor at the other odd multiples of 90 degrees; what the
  program computes there (about \<open>-6.27e12\<close> at the 9000th candidate) comes from the rounding
  of the argument. The function is therefore a parameter of the search, and a statement
  assumes of it only what it says.\<close>

partial_function (option) find_marginal_loop ::
  "(real \<Rightarrow> real) \<Rightarrow> optical_system \<Rightarrow> real \<Rightarrow> path option \<Rightarrow>
     ((real \<times> path) list \<times> optical_system) option" where
  "find_marginal_loop np_tan s current_angle last_successful_path =
     (let path = trace_ray s (np_tan (deg_to_rad current_angle)) 0;
          (all_elements_passed, s') = check_path s path
      in if all_elements_passed
         then find_marginal_loop np_tan s' (current_angle + angle_step) (Some path)
         else (case last_successful_path of
                 Some p \<Rightarrow> Some ([(current_angle - angle_step, p)], s')
               | None \<Rightarrow> Some ([], s')))"

definition find_marginal_rays ::
  "(real \<Rightarrow> real) \<Rightarrow> optical_system \<Rightarrow> ((real \<times> path) list \<times> optical_system) option" where
  "find_marginal_rays np_tan s = find_marginal_loop np_tan s angle_step None"

subsection \<open>\<^verbatim>\<open>find_image_position\<close>\<close>

text \<open>The exceptions of the source.\<close>

datatype error = ValueError | ZeroDivisionError | IndexError

text \<open>A float of the height computation: a real number or \<^verbatim>\<open>nan\<close>.\<close>

datatype npfloat = Fin real | NaN

type_synonym sample = "npfloat \<times> real \<times> npfloat"

text \<open>\<^verbatim>\<open>numpy.linspace(start, stop, num)\<close> with its default \<open>endpoint=True\<close>, for
  \<open>num > 1\<close>, in exact arithmetic.\<close>

definition linspace :: "real \<Rightarrow> real \<Rightarrow> nat \<Rightarrow> real list" where
  "linspace start stop num =
     map (\<lambda>i. start + real i * ((stop - start) / real (num - 1))) [0..<num]"

text \<open>The height of one path at \<open>z\<close>: the first segment with \<open>z1 \<le> z \<le> z2\<close> is
  interpolated, and a path without such a segment gives no height. On a segment of length
  zero \<open>z - z1\<close> is zero as well, so numpy computes \<open>t\<close> as \<open>0 / 0\<close>, warns, and goes on
  with \<^verbatim>\<open>nan\<close>: the height is \<^verbatim>\<open>nan\<close>.\<close>

fun height_at :: "path \<Rightarrow> real \<Rightarrow> npfloat option" where
  "height_at ((z1, y1) # (z2, y2) # rest) z =
     (if z1 \<le> z \<and> z \<le> z2
      then (if z2 - z1 = 0 then Some NaN
            else let t = (z - z1) / (z2 - z1) in Some (Fin (y1 + t * (y2 - y1))))
      else height_at ((z2, y2) # rest) z)"
| "height_at [p] z = None"
| "height_at [] z = None"

text \<open>The list \<^verbatim>\<open>heights\<close> at one \<open>z\<close>.\<close>

fun heights_at :: "path list \<Rightarrow> real \<Rightarrow> npfloat list" where
  "heights_at [] z = []"
| "heights_at (path # ray_paths) z =
     (case height_at path z of
        None \<Rightarrow> heights_at ray_paths z
      | Some height \<Rightarrow> height # heights_at ray_paths z)"

text \<open>Comparison and arithmetic of floats: a comparison with \<^verbatim>\<open>nan\<close> is false, an
  operation on \<^verbatim>\<open>nan\<close> gives \<^verbatim>\<open>nan\<close>.\<close>

fun float_gt :: "npfloat \<Rightarrow> npfloat \<Rightarrow> bool" where
  "float_gt (Fin a) (Fin b) = (a > b)"
| "float_gt a b = False"

fun float_lt :: "npfloat \<Rightarrow> npfloat \<Rightarrow> bool" where
  "float_lt (Fin a) (Fin b) = (a < b)"
| "float_lt a b = False"

fun float_sub :: "npfloat \<Rightarrow> npfloat \<Rightarrow> npfloat" where
  "float_sub (Fin a) (Fin b) = Fin (a - b)"
| "float_sub a b = NaN"

fun float_add :: "npfloat \<Rightarrow> npfloat \<Rightarrow> npfloat" where
  "float_add (Fin a) (Fin b) = Fin (a + b)"
| "float_add a b = NaN"

text \<open>Python's \<^verbatim>\<open>max\<close> and \<^verbatim>\<open>min\<close> of a list with first item \<open>first\<close>: the items are
  visited in order, and an item replaces the current one when it compares greater
  (respectively less).\<close>

fun py_max :: "npfloat \<Rightarrow> npfloat list \<Rightarrow> npfloat" where
  "py_max maxitem [] = maxitem"
| "py_max maxitem (item # items) = py_max (if float_gt item maxitem then item else maxitem) items"

fun py_min :: "npfloat \<Rightarrow> npfloat list \<Rightarrow> npfloat" where
  "py_min minitem [] = minitem"
| "py_min minitem (item # items) = py_min (if float_lt item minitem then item else minitem) items"

text \<open>\<^verbatim>\<open>np.mean\<close> of a non-empty list: the sum over the number of items.\<close>

definition np_mean :: "npfloat list \<Rightarrow> npfloat" where
  "np_mean heights =
     (case foldr float_add heights (Fin 0) of
        NaN \<Rightarrow> NaN
      | Fin height_sum \<Rightarrow> Fin (height_sum / real (length heights)))"

text \<open>The list \<^verbatim>\<open>spreads\<close> before it is sorted: one sample for every \<open>z\<close> at which
  \<^verbatim>\<open>heights\<close> is not empty.\<close>

fun collect_spreads :: "path list \<Rightarrow> real list \<Rightarrow> sample list" where
  "collect_spreads ray_paths [] = []"
| "collect_spreads ray_paths (z # z_positions) =
     (case heights_at ray_paths z of
        [] \<Rightarrow> collect_spreads ray_paths z_positions
      | first # others \<Rightarrow>
          (float_sub (py_max first others) (py_min first others), z, np_mean (first # others))
            # collect_spreads ray_paths z_positions)"

text \<open>\<^verbatim>\<open>spreads.sort()\<close> compares the tuples lexicographically with \<open><\<close>. A \<^verbatim>\<open>nan\<close> arises
  at \<open>z = 0\<close> only, the first position, so a tuple with a \<^verbatim>\<open>nan\<close> spread is the first of
  the list when the other tuples differ from it. Every comparison of another tuple with
  it is false, hence \<^verbatim>\<open>list.sort\<close> moves no tuple in front of it and sorts the others as
  usual: \<^verbatim>\<open>nan\<close> behaves as the least key.\<close>

fun float_key :: "npfloat \<Rightarrow> real option" where
  "float_key (Fin x) = Some x"
| "float_key NaN = None"

fun sample_key :: "sample \<Rightarrow> real option \<times> real \<times> real option" where
  "sample_key (spread, z, mean_height) = (float_key spread, z, float_key mean_height)"

definition py_sort :: "sample list \<Rightarrow> sample list" where
  "py_sort spreads = sort_key sample_key spreads"

text \<open>The loop over \<^verbatim>\<open>spreads[1:]\<close> that grows \<^verbatim>\<open>distinct_points\<close>.\<close>

fun select_loop :: "sample list \<Rightarrow> sample list \<Rightarrow> real option \<times> npfloat option" where
  "select_loop distinct_points [] = (None, None)"
| "select_loop distinct_points ((spread, z, height) # rest) =
     (if \<bar>z - fst (snd (last distinct_points))\<bar> > 1
      then (let distinct_points' = distinct_points @ [(spread, z, height)]
            in if length distinct_points' \<ge> 2
               then (Some (fst (snd (distinct_points' ! 1))), Some (snd (snd (distinct_points' ! 1))))
               else select_loop distinct_points' rest)
      else select_loop distinct_points rest)"

definition select_second :: "sample list \<Rightarrow> real option \<times> npfloat option" where
  "select_second spreads =
     (if length spreads \<ge> 2 then select_loop [hd spreads] (tl spreads) else (None, None))"

definition ray_paths_of :: "optical_system \<Rightarrow> (real \<times> real) list \<Rightarrow> path list" where
  "ray_paths_of s rays_from_point =
     filter (\<lambda>path. length path > 1) (map (\<lambda>(w0, y0). trace_ray s w0 y0) rays_from_point)"

definition find_convergence ::
  "optical_system \<Rightarrow> (real \<times> real) list \<Rightarrow> real option \<times> npfloat option" where
  "find_convergence s rays_from_point =
     (let ray_paths = ray_paths_of s rays_from_point
      in if length ray_paths < 2 then (None, None)
         else let z_positions = linspace 0 (total_distance s) 1000;
                  spreads = collect_spreads ray_paths z_positions
              in if spreads = [] then (None, None)
                 else select_second (py_sort spreads))"

definition find_image_position ::
  "optical_system \<Rightarrow> (real \<times> real) list \<Rightarrow>
     error + (real option \<times> npfloat option \<times> real option \<times> npfloat option)" where
  "find_image_position s rays =
     (case object_height s of
        None \<Rightarrow> Inl ValueError
      | Some H \<Rightarrow>
          (let toe_rays = filter (\<lambda>(w0, y0). \<bar>y0\<bar> < tol) rays;
               head_rays = filter (\<lambda>(w0, y0). \<bar>y0 - H\<bar> < tol) rays;
               (toe_x, toe_y) = find_convergence s toe_rays;
               (head_x, head_y) = find_convergence s head_rays
           in Inr (toe_x, toe_y, head_x, head_y)))"

subsection \<open>\<^verbatim>\<open>add_condition\<close> of \<^verbatim>\<open>gui.py\<close>\<close>

text \<open>The fields of \<^verbatim>\<open>OpticalSystemGUI\<close> that \<^verbatim>\<open>add_condition\<close> reads and writes. An
  entry of \<^verbatim>\<open>self.conditions\<close> is a formatted string in the source; here it is the
  data that the string shows.\<close>

datatype condition =
    TransferCondition real
  | IrisCondition real real
  | LensCondition real real real

record gui =
  system :: optical_system
  conditions :: "condition list"
  current_position :: real

text \<open>\<^verbatim>\<open>float(param_vars[i].get())\<close>: an entry of \<open>param_vars\<close> is given as what
  \<^verbatim>\<open>float\<close> makes of its text, \<open>None\<close> when \<^verbatim>\<open>float\<close> raises \<^verbatim>\<open>ValueError\<close>.\<close>

definition param_float :: "real option list \<Rightarrow> nat \<Rightarrow> error + real" where
  "param_float param_vars i =
     (if i < length param_vars
      then (case param_vars ! i of None \<Rightarrow> Inl ValueError | Some v \<Rightarrow> Inr v)
      else Inl IndexError)"

text \<open>The body of the \<^verbatim>\<open>try\<close> block, without the redraw of the form.\<close>

definition add_condition_try :: "gui \<Rightarrow> string \<Rightarrow> real option list \<Rightarrow> error + gui" where
  "add_condition_try g ctype param_vars =
     (if ctype = ''Transfer'' then
        (case param_float param_vars 0 of
           Inl e \<Rightarrow> Inl e
         | Inr distance \<Rightarrow>
             Inr (g\<lparr>system := add_transfer (system g) distance,
                    current_position := current_position g + distance,
                    conditions := conditions g @ [TransferCondition distance]\<rparr>))
      else if ctype = ''Iris'' then
        (case param_float param_vars 0 of
           Inl e \<Rightarrow> Inl e
         | Inr diam \<Rightarrow>
             Inr (g\<lparr>system := add_iris (system g) (current_position g) diam,
                    conditions := conditions g @ [IrisCondition (current_position g) diam]\<rparr>))
      else
        (case param_float param_vars 0 of
           Inl e \<Rightarrow> Inl e
         | Inr focal_length \<Rightarrow>
             (case param_float param_vars 1 of
                Inl e \<Rightarrow> Inl e
              | Inr diam \<Rightarrow>
                  if focal_length = 0 then Inl ZeroDivisionError
                  else let power' = 1 / focal_length
                       in Inr (g\<lparr>system := add_refraction (system g) (current_position g) power' diam,
                                conditions := conditions g @
                                  [LensCondition (current_position g) focal_length diam]\<rparr>))))"

text \<open>The handlers: a \<^verbatim>\<open>ValueError\<close> and a \<^verbatim>\<open>ZeroDivisionError\<close> end in a message box
  and leave the state as it was; any other exception propagates.\<close>

definition add_condition ::
  "gui \<Rightarrow> string \<Rightarrow> real option list \<Rightarrow> error + (string option \<times> gui)" where
  "add_condition g ctype param_vars =
     (case add_condition_try g ctype param_vars of
        Inr g' \<Rightarrow> Inr (None, g')
      | Inl ValueError \<Rightarrow> Inr (Some ''Please enter valid numbers'', g)
      | Inl ZeroDivisionError \<Rightarrow> Inr (Some ''Focal length cannot be zero'', g)
      | Inl e \<Rightarrow> Inl e)"

subsection \<open>Notions used to state the properties\<close>

text \<open>The \<open>k\<close>-th candidate of the marginal-ray search: the path of the ray launched from
  height 0 at \<open>k\<close> times the angular step, and whether the search classifies it as passed.\<close>

definition candidate :: "(real \<Rightarrow> real) \<Rightarrow> optical_system \<Rightarrow> nat \<Rightarrow> path" where
  "candidate np_tan s k = trace_ray s (np_tan (deg_to_rad (real k * angle_step))) 0"

definition passes :: "(real \<Rightarrow> real) \<Rightarrow> optical_system \<Rightarrow> nat \<Rightarrow> bool" where
  "passes np_tan s k = fst (check_path s (candidate np_tan s k))"

text \<open>The specification's notion of a tracing-successful path: its final axial position
  equals the total transfer length within the tolerance.\<close>

definition tracing_successful :: "optical_system \<Rightarrow> path \<Rightarrow> bool" where
  "tracing_successful s path = (\<bar>fst (last path) - total_distance s\<bar> \<le> tol)"











subsection \<open>Example systems\<close>

text \<open>A lens of diameter 4 with an iris of diameter 2.0002 in its plane, 1 cm from the
  object, and 1 cm of free space behind it.\<close>

definition lens_with_iris :: optical_system where
  "lens_with_iris =
     add_transfer (add_iris (add_refraction (add_transfer init_system 1) 1 1 4) 1 (10001 / 5000)) 1"

text \<open>Two irises near \<open>z = 1\<close> and a transfer that steps back: the positions after the
  three transfers are \<open>1\<close>, \<open>1 - 3e-11\<close> and \<open>1 + 6e-11\<close>, the total transfer length is
  \<open>1 + 9e-11\<close>. The first iris matches the second position only, the second iris all
  three.\<close>

definition back_step :: optical_system where
  "back_step =
     add_transfer (add_transfer (add_iris (add_iris (add_transfer init_system 1)
       (1 - 12 / 10 ^ 11) (10001 / 5000)) 1 4) (- (3 / 10 ^ 11))) (9 / 10 ^ 11)"

text \<open>1 cm of free space and no element.\<close>

definition free_space :: optical_system where
  "free_space = add_transfer init_system 1"



section \<open>Properties of the ray tracer\<close>

subsection \<open>Blocking and single steps of the trace\<close>

lemma blocked_iff: "blocked es z y \<longleftrightarrow> (\<exists>e\<in>set es. blocks e z y)"
  by (induction es) auto

lemma trace_loop_blocked:
  assumes "blocked es (current_z + distance) (fst (matvec m ray))"
  shows "trace_loop es ((t, m, distance) # ops) ray current_z path
           = (path @ [(current_z + distance, fst (matvec m ray))], matvec m ray)"
  using assms by (simp add: Let_def)

lemma trace_loop_continues:
  assumes "\<not> blocked es (current_z + distance) (fst (matvec m ray))"
  shows "trace_loop es ((t, m, distance) # ops) ray current_z path
           = trace_loop es ops (matvec m ray) (current_z + distance)
               (path @ [(current_z + distance, fst (matvec m ray))])"
  using assms by (simp add: Let_def)

text \<open>
  \<^bold>\<open>C3.\<close> In a pass of the tracing loop that brings the ray to \<open>(z', y')\<close>, an element
  \<open>(kind, pos, diameter)\<close> whose position matches \<open>z'\<close> within the tolerance blocks the ray
  exactly when \<open>\<bar>y'\<bar> > diameter / 2\<close>. If it is in the registry and blocks, the loop
  returns at once with the path ending in \<open>(z', y')\<close>. At the boundary
  \<open>\<bar>y'\<bar> = diameter / 2\<close> it does not block, and when no element of the registry blocks,
  tracing goes on with the remaining operations.
\<close>

theorem trace_loop_vignetting_strict:
  assumes "\<bar>pos - z'\<bar> < tol"
    and "z' = current_z + distance"
    and "y' = fst (matvec m ray)"
  shows "(blocks (kind, pos, diameter) z' y' \<longleftrightarrow> \<bar>y'\<bar> > diameter / 2)
       \<and> ((kind, pos, diameter) \<in> set es \<and> \<bar>y'\<bar> > diameter / 2 \<longrightarrow>
            trace_loop es ((t, m, distance) # ops) ray current_z path
              = (path @ [(z', y')], matvec m ray))
       \<and> (\<bar>y'\<bar> = diameter / 2 \<longrightarrow> \<not> blocks (kind, pos, diameter) z' y')
       \<and> ((\<forall>e\<in>set es. \<not> blocks e z' y') \<longrightarrow>
            trace_loop es ((t, m, distance) # ops) ray current_z path
              = trace_loop es ops (matvec m ray) z' (path @ [(z', y')]))"
proof (intro conjI impI)
  show iff: "blocks (kind, pos, diameter) z' y' \<longleftrightarrow> \<bar>y'\<bar> > diameter / 2"
    using assms(1) by simp
  show "\<not> blocks (kind, pos, diameter) z' y'" if "\<bar>y'\<bar> = diameter / 2"
    using that by simp
  show "trace_loop es ((t, m, distance) # ops) ray current_z path
          = (path @ [(z', y')], matvec m ray)"
    if "(kind, pos, diameter) \<in> set es \<and> \<bar>y'\<bar> > diameter / 2"
  proof -
    have "blocked es z' y'"
      using that iff blocked_iff by blast
    then show ?thesis
      unfolding assms(2,3) by (rule trace_loop_blocked)
  qed
  show "trace_loop es ((t, m, distance) # ops) ray current_z path
          = trace_loop es ops (matvec m ray) z' (path @ [(z', y')])"
    if "\<forall>e\<in>set es. \<not> blocks e z' y'"
  proof -
    have "\<not> blocked es z' y'"
      using that by (simp add: blocked_iff)
    then show ?thesis
      unfolding assms(2,3) by (rule trace_loop_continues)
  qed
qed

text \<open>The iris of diameter 2 at \<open>z = 1\<close>: the ray of slope 2 arrives at height 2 and is
  cut there, the ray of slope 1 arrives at height 1, on the rim, and goes through.\<close>

theorem trace_loop_vignetting_strict_witness:
  "\<bar>(1::real) - 1\<bar> < tol \<and> (1::real) = 0 + 1
   \<and> (2::real) = fst (matvec ((1, 1), (0, 1)) (0, 2))
   \<and> (1::real) = fst (matvec ((1, 1), (0, 1)) (0, 1))
   \<and> (Iris, 1, 2) \<in> set [(Iris, 1, 2)] \<and> \<bar>2::real\<bar> > 2 / 2 \<and> \<bar>1::real\<bar> = 2 / 2
   \<and> \<not> (\<exists>e\<in>set [(Iris, 1, 2)]. blocks e 1 1)
   \<and> blocks (Iris, 1, 2) 1 2 \<and> \<not> blocks (Iris, 1, 2) 1 1
   \<and> trace_loop [(Iris, 1, 2)]
        [(Transfer, ((1, 1), (0, 1)), 1), (Transfer, ((1, 1), (0, 1)), 1)] (0, 2) 0 [(0, 0)]
        = ([(0, 0), (1, 2)], (2, 2))
   \<and> trace_loop [(Iris, 1, 2)]
        [(Transfer, ((1, 1), (0, 1)), 1), (Transfer, ((1, 1), (0, 1)), 1)] (0, 1) 0 [(0, 0)]
        = ([(0, 0), (1, 1), (2, 2)], (2, 1))"
proof -
  have t: "\<bar>(1::real) - 1\<bar> < tol"
    by (simp add: tol_def)
  have z: "(1::real) = 0 + 1"
    by simp
  have y2: "(2::real) = fst (matvec ((1, 1), (0, 1)) (0, 2))"
    and y1: "(1::real) = fst (matvec ((1, 1), (0, 1)) (0, 1))"
    by simp_all
  note cut = trace_loop_vignetting_strict [OF t z y2, of Iris 2 "[(Iris, 1, 2)]" Transfer
      "[(Transfer, ((1, 1), (0, 1)), 1)]" "[(0, 0)]"]
  note rim = trace_loop_vignetting_strict [OF t z y1, of Iris 2 "[(Iris, 1, 2)]" Transfer
      "[(Transfer, ((1, 1), (0, 1)), 1)]" "[(0, 0)]"]
  show ?thesis
    using cut rim t by (simp add: Let_def)
qed

text \<open>
  \<^bold>\<open>C4.\<close> In a system whose only operation is one refraction of power \<open>P\<close> (appended by
  \<^verbatim>\<open>add_refraction\<close>, distance 0), the traced path is \<open>[(0, y0), (0, y0)]\<close>: the height is
  unchanged; and the ray vector after the operation is \<open>(y0, w0 - P * y0)\<close>. This holds
  for every \<open>P\<close>, in particular for \<open>P \<noteq> 0\<close>, and whatever elements the registry holds.
\<close>

theorem single_refraction_state:
  "trace_state (add_refraction (s\<lparr>matrices := []\<rparr>) position P diameter) w0 y0
     = ([(0, y0), (0, y0)], (y0, w0 - P * y0))
   \<and> trace_ray (add_refraction (s\<lparr>matrices := []\<rparr>) position P diameter) w0 y0
     = [(0, y0), (0, y0)]"
  by (simp add: trace_ray_def trace_state_def add_refraction_def Let_def)

text \<open>
  \<^bold>\<open>C5.\<close> Two transfers \<open>d1\<close>, \<open>d2\<close> against one transfer \<open>d1 + d2\<close>, with the same
  registry, for a ray that is not blocked at \<open>d1\<close>. The two runs end with the same ray
  vector, and the path of the first is the path of the second with the sample at \<open>d1\<close>
  inserted after the start, so both paths end in the same sample. The paths themselves
  are not equal: every operation appends one sample.
\<close>

theorem two_transfers_compose:
  assumes "\<not> blocked (optical_elements s) d1 (y0 + d1 * w0)"
  shows "snd (trace_state (add_transfer (add_transfer (s\<lparr>matrices := []\<rparr>) d1) d2) w0 y0)
           = snd (trace_state (add_transfer (s\<lparr>matrices := []\<rparr>) (d1 + d2)) w0 y0)
       \<and> trace_ray (add_transfer (add_transfer (s\<lparr>matrices := []\<rparr>) d1) d2) w0 y0
           = (0, y0) # (d1, y0 + d1 * w0)
               # tl (trace_ray (add_transfer (s\<lparr>matrices := []\<rparr>) (d1 + d2)) w0 y0)
       \<and> last (trace_ray (add_transfer (add_transfer (s\<lparr>matrices := []\<rparr>) d1) d2) w0 y0)
           = last (trace_ray (add_transfer (s\<lparr>matrices := []\<rparr>) (d1 + d2)) w0 y0)
       \<and> trace_ray (add_transfer (s\<lparr>matrices := []\<rparr>) (d1 + d2)) w0 y0
           = [(0, y0), (d1 + d2, y0 + (d1 + d2) * w0)]"
  using assms
  by (simp add: trace_ray_def trace_state_def add_transfer_def Let_def algebra_simps)

theorem two_transfers_compose_witness:
  "\<not> blocked (optical_elements init_system) 3 (1 + 3 * (1 / 2))
   \<and> trace_ray (add_transfer (add_transfer (init_system\<lparr>matrices := []\<rparr>) 3) 5) (1 / 2) 1
       = [(0, 1), (3, 5 / 2), (8, 5)]
   \<and> trace_ray (add_transfer (init_system\<lparr>matrices := []\<rparr>) (3 + 5)) (1 / 2) 1
       = [(0, 1), (8, 5)]"
proof -
  have h: "\<not> blocked (optical_elements init_system) 3 (1 + 3 * (1 / 2))"
    by (simp add: init_system_def)
  show ?thesis
    using h two_transfers_compose [OF h, of 5] by simp
qed

text \<open>The ray of slope \<open>1 / 2\<close> from height 1 through free space: three samples
  against two.\<close>

theorem two_transfers_path_differs:
  "trace_ray (add_transfer (add_transfer init_system 1) 1) (1 / 2) 1 = [(0, 1), (1, 3 / 2), (2, 2)]
   \<and> trace_ray (add_transfer init_system (1 + 1)) (1 / 2) 1 = [(0, 1), (2, 2)]
   \<and> trace_ray (add_transfer (add_transfer init_system 1) 1) (1 / 2) 1
       \<noteq> trace_ray (add_transfer init_system (1 + 1)) (1 / 2) 1"
  by (simp add: trace_ray_def trace_state_def add_transfer_def Let_def init_system_def)

section \<open>Properties of the marginal-ray search\<close>

subsection \<open>Unfolding the loop\<close>

lemma check_path_passed: "fst (check_path s p) \<Longrightarrow> check_path s p = (True, s)"
  by (auto simp add: check_path_def Let_def split: if_splits)

lemma check_path_failed:
  assumes "\<not> fst (check_path s p)"
  shows "snd (check_path s p)
           = (if length p < 2 then s
              else case find_stop (optical_elements s) (fst (last p)) of
                     None \<Rightarrow> s
                   | Some e \<Rightarrow> s\<lparr>STOP_optic := Some e\<rparr>)"
  using assms by (auto simp add: check_path_def record_stop_def Let_def split: if_splits)

lemma passes_tracing_successful:
  "passes np_tan s k \<Longrightarrow> 2 \<le> length (candidate np_tan s k) \<and> tracing_successful s (candidate np_tan s k)"
  by (auto simp add: passes_def check_path_def tracing_successful_def Let_def split: if_splits)

lemma loop_pass:
  assumes "passes np_tan s k"
  shows "find_marginal_loop np_tan s (real k * angle_step) l
           = find_marginal_loop np_tan s (real (Suc k) * angle_step) (Some (candidate np_tan s k))"
proof -
  have c: "check_path s (trace_ray s (np_tan (deg_to_rad (real k * angle_step))) 0) = (True, s)"
    using assms check_path_passed by (simp add: passes_def candidate_def)
  have a: "real k * angle_step + angle_step = real (Suc k) * angle_step"
    by (simp add: algebra_simps)
  show ?thesis
    by (subst find_marginal_loop.simps) (simp add: c a candidate_def)
qed

lemma loop_fail:
  assumes "\<not> passes np_tan s k"
  shows "find_marginal_loop np_tan s (real k * angle_step) l
           = Some (case l of Some p \<Rightarrow> [(real k * angle_step - angle_step, p)] | None \<Rightarrow> [],
                   snd (check_path s (candidate np_tan s k)))"
proof -
  obtain s' where
    c: "check_path s (trace_ray s (np_tan (deg_to_rad (real k * angle_step))) 0) = (False, s')"
    using assms by (cases "check_path s (candidate np_tan s k)") (simp add: passes_def candidate_def)
  show ?thesis
    by (subst find_marginal_loop.simps) (simp add: c candidate_def split: option.splits)
qed

lemma loop_run:
  assumes "k \<le> n" and "\<And>j. k \<le> j \<Longrightarrow> j < n \<Longrightarrow> passes np_tan s j"
  shows "find_marginal_loop np_tan s (real k * angle_step) l
           = find_marginal_loop np_tan s (real n * angle_step)
               (if n = k then l else Some (candidate np_tan s (n - 1)))"
  using assms
proof (induction n rule: dec_induct)
  case base
  then show ?case by simp
next
  case (step m)
  have "find_marginal_loop np_tan s (real k * angle_step) l
          = find_marginal_loop np_tan s (real m * angle_step)
              (if m = k then l else Some (candidate np_tan s (m - 1)))"
    using step by simp
  also have "\<dots> = find_marginal_loop np_tan s (real (Suc m) * angle_step) (Some (candidate np_tan s m))"
    using step.hyps step.prems by (intro loop_pass) simp
  finally show ?case using step.hyps by simp
qed

lemma first_fail_result:
  assumes "1 \<le> n" and "\<And>j. 1 \<le> j \<Longrightarrow> j < n \<Longrightarrow> passes np_tan s j" and "\<not> passes np_tan s n"
  shows "find_marginal_rays np_tan s
           = Some (if n = 1 then [] else [(real (n - 1) * angle_step, candidate np_tan s (n - 1))],
                   snd (check_path s (candidate np_tan s n)))"
proof -
  have "find_marginal_rays np_tan s = find_marginal_loop np_tan s (real (1::nat) * angle_step) None"
    by (simp add: find_marginal_rays_def)
  also have "\<dots> = find_marginal_loop np_tan s (real n * angle_step)
                      (if n = 1 then None else Some (candidate np_tan s (n - 1)))"
    using assms(1,2) by (rule loop_run)
  also have "\<dots> = Some (case (if n = 1 then None else Some (candidate np_tan s (n - 1))) of
                           Some p \<Rightarrow> [(real n * angle_step - angle_step, p)] | None \<Rightarrow> [],
                   snd (check_path s (candidate np_tan s n)))"
    using assms(3) by (rule loop_fail)
  also have "real n * angle_step - angle_step = real (n - 1) * angle_step"
    using assms(1) by (simp add: of_nat_diff algebra_simps)
  finally show ?thesis by (simp split: if_splits)
qed

text \<open>A run that returns has met a failing candidate.\<close>

lemma loop_returns_fail:
  assumes "find_marginal_loop np_tan s a l = Some y"
  shows "\<forall>k. a = real k * angle_step \<longrightarrow> (\<exists>j\<ge>k. \<not> passes np_tan s j)"
proof (rule find_marginal_loop.raw_induct
    [where P = "\<lambda>np_tan s a l y. \<forall>k. a = real k * angle_step \<longrightarrow> (\<exists>j\<ge>k. \<not> passes np_tan s j)", OF _ assms],
    goal_cases)
  case (1 f np_tan s a l y)
  show ?case
  proof (intro allI impI)
    fix k assume a: "a = real k * angle_step"
    show "\<exists>j\<ge>k. \<not> passes np_tan s j"
    proof (cases "passes np_tan s k")
      case True
      then have c: "check_path s (trace_ray s (np_tan (deg_to_rad (real k * angle_step))) 0) = (True, s)"
        using check_path_passed by (simp add: passes_def candidate_def)
      have "f np_tan s (real k * angle_step + angle_step) (Some (candidate np_tan s k)) = Some y"
        using "1"(2) c unfolding a by (simp add: candidate_def)
      moreover have "real k * angle_step + angle_step = real (Suc k) * angle_step"
        by (simp add: algebra_simps)
      ultimately have "f np_tan s (real (Suc k) * angle_step) (Some (candidate np_tan s k)) = Some y"
        by simp
      then obtain j where "j \<ge> Suc k" "\<not> passes np_tan s j"
        using "1"(1) by blast
      then show ?thesis by (intro exI[of _ j]) simp
    next
      case False
      then show ?thesis by blast
    qed
  qed
qed

lemma never_returns:
  assumes "\<And>j. 1 \<le> j \<Longrightarrow> passes np_tan s j"
  shows "find_marginal_rays np_tan s = None"
proof (cases "find_marginal_rays np_tan s")
  case None
  then show ?thesis .
next
  case (Some y)
  then have "find_marginal_loop np_tan s angle_step None = Some y"
    by (simp add: find_marginal_rays_def)
  then have "\<exists>j\<ge>1. \<not> passes np_tan s j"
    using loop_returns_fail[of np_tan s angle_step None y] by (metis mult_1 of_nat_1)
  then show ?thesis using assms by blast
qed

lemma first_failure_exists:
  assumes "1 \<le> m" and "\<not> passes np_tan s m"
  shows "\<exists>n\<ge>1. (\<forall>j. 1 \<le> j \<and> j < n \<longrightarrow> passes np_tan s j) \<and> \<not> passes np_tan s n"
proof -
  define n where "n = (LEAST n. 1 \<le> n \<and> \<not> passes np_tan s n)"
  have "1 \<le> n \<and> \<not> passes np_tan s n"
    unfolding n_def using assms by (intro LeastI [of "\<lambda>n. 1 \<le> n \<and> \<not> passes np_tan s n" m]) simp
  moreover have "passes np_tan s j" if "1 \<le> j" "j < n" for j
    using that not_less_Least [of j "\<lambda>n. 1 \<le> n \<and> \<not> passes np_tan s n"] unfolding n_def by blast
  ultimately show ?thesis
    by blast
qed

lemma returns_first_failure:
  assumes "find_marginal_rays np_tan s = Some y"
  shows "\<exists>n\<ge>1. (\<forall>j. 1 \<le> j \<and> j < n \<longrightarrow> passes np_tan s j) \<and> \<not> passes np_tan s n
           \<and> y = (if n = 1 then [] else [(real (n - 1) * angle_step, candidate np_tan s (n - 1))],
                   snd (check_path s (candidate np_tan s n)))"
proof -
  have "\<exists>m\<ge>1. \<not> passes np_tan s m"
    using never_returns [of np_tan s] assms by fastforce
  then obtain m where "1 \<le> m" "\<not> passes np_tan s m"
    by blast
  then obtain n where n: "1 \<le> n" "\<forall>j. 1 \<le> j \<and> j < n \<longrightarrow> passes np_tan s j" "\<not> passes np_tan s n"
    using first_failure_exists by blast
  then have "find_marginal_rays np_tan s
           = Some (if n = 1 then [] else [(real (n - 1) * angle_step, candidate np_tan s (n - 1))],
                   snd (check_path s (candidate np_tan s n)))"
    by (intro first_fail_result) simp_all
  then show ?thesis
    using assms n by auto
qed

subsection \<open>A steeper ray from the axis is cut no later\<close>

text \<open>A ray from height 0 is the slope times the ray of slope 1, so every height grows
  with the absolute slope. When no transfer steps back, the position where a steeper ray
  is cut is at most the one of a flatter ray, and a failing candidate is followed by
  failing ones as long as the absolute slope does not decrease, that is, below 90
  degrees.\<close>

lemma blocks_mono: "\<bar>y\<bar> \<le> \<bar>y'\<bar> \<Longrightarrow> blocks e z y \<Longrightarrow> blocks e z y'"
  by (cases e) auto

lemma blocked_mono: "\<bar>y\<bar> \<le> \<bar>y'\<bar> \<Longrightarrow> blocked es z y \<Longrightarrow> blocked es z y'"
  by (induction es) (auto dest: blocks_mono)

lemma matvec_scale: "matvec m (c * a, c * b) = (c * fst (matvec m (a, b)), c * snd (matvec m (a, b)))"
proof -
  obtain p q r t where "m = ((p, q), (r, t))"
    by (metis surj_pair)
  then show ?thesis
    by (simp add: algebra_simps)
qed

lemma trace_loop_nonempty: "p \<noteq> [] \<Longrightarrow> fst (trace_loop es ops ray z p) \<noteq> []"
  by (induction es ops ray z p rule: trace_loop.induct) (auto simp add: Let_def)

lemma trace_loop_length:
  "ops \<noteq> [] \<Longrightarrow> Suc (length p) \<le> length (fst (trace_loop es ops ray z p))"
proof (induction es ops ray z p rule: trace_loop.induct)
  case (1 es ray current_z path)
  then show ?case by simp
next
  case (2 es elem_type m distance ops ray current_z path)
  show ?case
  proof (cases "blocked es (current_z + distance) (fst (matvec m ray))")
    case True
    then show ?thesis by (simp add: Let_def)
  next
    case False
    show ?thesis
    proof (cases ops)
      case Nil
      then show ?thesis using False by (simp add: Let_def)
    next
      case (Cons a list)
      then have "Suc (length (path @ [(current_z + distance, fst (matvec m ray))]))
          \<le> length (fst (trace_loop es ops (matvec m ray) (current_z + distance)
                (path @ [(current_z + distance, fst (matvec m ray))])))"
        using "2.IH" False by (simp add: Let_def)
      then show ?thesis using False by (simp add: Let_def)
    qed
  qed
qed

lemma trace_loop_last_ge:
  assumes "\<forall>op\<in>set ops. 0 \<le> snd (snd op)" and "p \<noteq> []" and "fst (last p) = z"
  shows "z \<le> fst (last (fst (trace_loop es ops ray z p)))"
  using assms
proof (induction es ops ray z p rule: trace_loop.induct)
  case (1 es ray current_z path)
  then show ?case by simp
next
  case (2 es elem_type m distance ops ray current_z path)
  have d: "0 \<le> distance" using "2.prems"(1) by simp
  show ?case
  proof (cases "blocked es (current_z + distance) (fst (matvec m ray))")
    case True
    then show ?thesis using d by (simp add: Let_def)
  next
    case False
    have "current_z + distance \<le> fst (last (fst (trace_loop es ops (matvec m ray) (current_z + distance)
                (path @ [(current_z + distance, fst (matvec m ray))]))))"
      using "2.IH" [OF refl refl refl refl False] "2.prems"(1) by simp
    then show ?thesis using False d by (simp add: Let_def)
  qed
qed

lemma trace_loop_last_le:
  assumes "\<forall>op\<in>set ops. 0 \<le> snd (snd op)" and "p \<noteq> []" and "fst (last p) = z"
  shows "fst (last (fst (trace_loop es ops ray z p))) \<le> z + sum_list (map (\<lambda>op. snd (snd op)) ops)"
  using assms
proof (induction es ops ray z p rule: trace_loop.induct)
  case (1 es ray current_z path)
  then show ?case by simp
next
  case (2 es elem_type m distance ops ray current_z path)
  have d: "0 \<le> distance" using "2.prems"(1) by simp
  have nn: "0 \<le> sum_list (map (\<lambda>op. snd (snd op)) ops)"
    using "2.prems"(1) by (intro sum_list_nonneg) auto
  show ?case
  proof (cases "blocked es (current_z + distance) (fst (matvec m ray))")
    case True
    then show ?thesis using d nn by (simp add: Let_def)
  next
    case False
    have "fst (last (fst (trace_loop es ops (matvec m ray) (current_z + distance)
                (path @ [(current_z + distance, fst (matvec m ray))]))))
            \<le> current_z + distance + sum_list (map (\<lambda>op. snd (snd op)) ops)"
      using "2.IH" [OF refl refl refl refl False] "2.prems"(1) by simp
    then show ?thesis using False by (simp add: Let_def)
  qed
qed

lemma trace_loop_mono:
  assumes "\<forall>op\<in>set ops. 0 \<le> snd (snd op)" and "p \<noteq> []" and "fst (last p) = z"
    and "p' \<noteq> []" and "fst (last p') = z" and "\<bar>c\<bar> \<le> \<bar>c'\<bar>"
  shows "fst (last (fst (trace_loop es ops (c' * a, c' * b) z p')))
           \<le> fst (last (fst (trace_loop es ops (c * a, c * b) z p)))"
  using assms
proof (induction ops arbitrary: a b z p p')
  case Nil
  then show ?case by simp
next
  case (Cons op ops)
  obtain t m d where op: "op = (t, m, d)" by (cases op)
  define u where "u = matvec m (a, b)"
  have mv: "matvec m (c * a, c * b) = (c * fst u, c * snd u)"
    "matvec m (c' * a, c' * b) = (c' * fst u, c' * snd u)"
    unfolding u_def by (rule matvec_scale)+
  have d: "0 \<le> d" and rest: "\<forall>op\<in>set ops. 0 \<le> snd (snd op)"
    using Cons.prems(1) op by simp_all
  have ab: "\<bar>c * fst u\<bar> \<le> \<bar>c' * fst u\<bar>"
    using Cons.prems(6) by (simp add: abs_mult mult_right_mono)
  let ?q = "p @ [(z + d, c * fst u)]" and ?q' = "p' @ [(z + d, c' * fst u)]"
  show ?case
  proof (cases "blocked es (z + d) (c' * fst u)")
    case True
    then have l: "fst (last (fst (trace_loop es (op # ops) (c' * a, c' * b) z p'))) = z + d"
      by (simp add: op mv Let_def)
    show ?thesis
    proof (cases "blocked es (z + d) (c * fst u)")
      case True
      then show ?thesis using l by (simp add: op mv Let_def)
    next
      case False
      have "z + d \<le> fst (last (fst (trace_loop es ops (c * fst u, c * snd u) (z + d) ?q)))"
        using rest by (intro trace_loop_last_ge) simp_all
      then show ?thesis using l False by (simp add: op mv Let_def)
    qed
  next
    case False
    then have nb: "\<not> blocked es (z + d) (c * fst u)"
      using blocked_mono [OF ab] by blast
    have "fst (last (fst (trace_loop es ops (c' * fst u, c' * snd u) (z + d) ?q')))
           \<le> fst (last (fst (trace_loop es ops (c * fst u, c * snd u) (z + d) ?q)))"
      using rest Cons.prems(6) by (intro Cons.IH) simp_all
    then show ?thesis using False nb by (simp add: op mv Let_def)
  qed
qed

lemma total_distance_nonneg:
  assumes "\<forall>op\<in>set (matrices s). 0 \<le> snd (snd op)"
  shows "total_distance s = sum_list (map (\<lambda>op. snd (snd op)) (matrices s))"
proof -
  have "sum_list (map (\<lambda>(_, _, distance). distance) (filter (\<lambda>(_, _, distance). distance > 0) ops))
          = sum_list (map (\<lambda>op. snd (snd op)) ops)"
    if "\<forall>op\<in>set ops. 0 \<le> snd (snd op)" for ops :: "transfer_op list"
    using that by (induction ops) (auto simp add: case_prod_beta)
  then show ?thesis
    using assms by (simp add: total_distance_def)
qed

lemma fail_mono:
  assumes nn: "\<forall>op\<in>set (matrices s). 0 \<le> snd (snd op)"
    and le: "\<bar>w\<bar> \<le> \<bar>w'\<bar>"
    and fail: "\<not> fst (check_path s (trace_ray s w 0))"
  shows "\<not> fst (check_path s (trace_ray s w' 0))"
proof (cases "matrices s = []")
  case True
  then show ?thesis
    by (simp add: check_path_def trace_ray_def trace_state_def)
next
  case False
  let ?f = "\<lambda>w. fst (last (trace_ray s w 0))"
  have len: "2 \<le> length (trace_ray s v 0)" for v
    using trace_loop_length [OF False, of "[(0, 0)]" "optical_elements s" "(0, v)" 0]
    by (simp add: trace_ray_def trace_state_def)
  have up: "?f w \<le> total_distance s"
    using trace_loop_last_le [OF nn, of "[(0, 0)]" 0 "optical_elements s" "(0, w)"]
    by (simp add: trace_ray_def trace_state_def total_distance_nonneg [OF nn])
  have "?f w' \<le> ?f w"
    using trace_loop_mono [OF nn, of "[(0, 0)]" 0 "[(0, 0)]" w w' "optical_elements s" 0 1] le
    by (simp add: trace_ray_def trace_state_def)
  moreover have "\<bar>?f w - total_distance s\<bar> > tol"
    using fail len [of w] by (auto simp add: check_path_def Let_def split: if_splits)
  ultimately have "\<bar>?f w' - total_distance s\<bar> > tol"
    using up by linarith
  then show ?thesis
    by (simp add: check_path_def Let_def)
qed

lemma tan_deg_mono:
  assumes "1 \<le> n" "n \<le> k" "k < 9000"
  shows "\<bar>tan (deg_to_rad (real n * angle_step))\<bar> \<le> \<bar>tan (deg_to_rad (real k * angle_step))\<bar>"
    and "0 < deg_to_rad (real n * angle_step)" and "deg_to_rad (real n * angle_step) < pi / 2"
    and "0 < deg_to_rad (real k * angle_step)" and "deg_to_rad (real k * angle_step) < pi / 2"
proof -
  let ?x = "\<lambda>j. deg_to_rad (real j * angle_step)"
  have x: "?x j = real j * pi / 18000" for j by (simp add: deg_to_rad_def angle_step_def)
  have r: "0 < real n" "real n \<le> real k" "real k < 9000" using assms by simp_all
  have "real k * pi < 9000 * pi" using r(3) by simp
  then show k2: "?x k < pi / 2" unfolding x by simp
  show n1: "0 < ?x n" unfolding x using r(1) by simp
  have "real n * pi \<le> real k * pi" using r(2) by simp
  then have nk: "?x n \<le> ?x k" unfolding x by simp
  then show k1: "0 < ?x k" and n2: "?x n < pi / 2" using n1 k2 by linarith+
  have "tan (?x n) \<le> tan (?x k)"
    using n1 nk k2 by (intro tan_mono_le) linarith+
  moreover have "0 < tan (?x n)"
    using n1 n2 by (rule tan_gt_zero)
  ultimately show "\<bar>tan (?x n)\<bar> \<le> \<bar>tan (?x k)\<bar>" by simp
qed

lemma fails_up_to_90:
  assumes nn: "\<forall>op\<in>set (matrices s). 0 \<le> snd (snd op)"
    and tn: "\<forall>x. 0 < x \<and> x < pi / 2 \<longrightarrow> np_tan x = tan x"
    and "1 \<le> n" "n \<le> k" "k < 9000" and f: "\<not> passes np_tan s n"
  shows "\<not> passes np_tan s k"
proof -
  note t = tan_deg_mono [OF assms(3,4,5)]
  have "\<bar>np_tan (deg_to_rad (real n * angle_step))\<bar> \<le> \<bar>np_tan (deg_to_rad (real k * angle_step))\<bar>"
    using t tn by simp
  then show ?thesis
    using fail_mono [OF nn] f unfolding passes_def candidate_def by blast
qed

subsection \<open>The lens with an iris in its plane\<close>

lemma lens_with_iris_trace:
  "trace_ray lens_with_iris t 0
     = (if \<bar>t\<bar> > 10001 / 10000 then [(0, 0), (1, t)]
        else [(0, 0), (1, t), (1, t), (2, t)])"
  by (simp add: trace_ray_def trace_state_def lens_with_iris_def add_transfer_def add_iris_def
      add_refraction_def init_system_def Let_def tol_def)

lemma lens_with_iris_total: "total_distance lens_with_iris = 2"
  by (simp add: total_distance_def lens_with_iris_def add_transfer_def add_iris_def
      add_refraction_def init_system_def)

lemma lens_with_iris_elements:
  "optical_elements lens_with_iris = [(Lens, 1, 4), (Iris, 1, 10001 / 5000)]"
  by (simp add: lens_with_iris_def add_transfer_def add_iris_def add_refraction_def init_system_def)

lemma lens_with_iris_check:
  "check_path lens_with_iris (trace_ray lens_with_iris t 0)
     = (if \<bar>t\<bar> > 10001 / 10000
        then (False, lens_with_iris\<lparr>STOP_optic := Some (Lens, 1, 4)\<rparr>)
        else (True, lens_with_iris))"
  by (simp add: lens_with_iris_trace check_path_def lens_with_iris_total record_stop_def
      lens_with_iris_elements tol_def)

lemma tan_deg_le_45:
  assumes "1 \<le> j" "j \<le> 4500"
  shows "\<bar>tan (deg_to_rad (real j * angle_step))\<bar> \<le> 1"
proof -
  let ?x = "deg_to_rad (real j * angle_step)"
  have x: "?x = real j * pi / 18000" by (simp add: deg_to_rad_def angle_step_def)
  have "real j \<le> 4500" using assms by simp
  then have "real j * pi \<le> 4500 * pi" by (intro mult_right_mono) simp_all
  then have le: "?x \<le> pi / 4" unfolding x by simp
  have ge: "0 \<le> ?x" unfolding x by simp
  have "tan ?x \<le> tan (pi / 4)"
    using ge le by (intro tan_mono_le) (use pi_gt_zero in linarith)+
  moreover have "0 \<le> tan ?x"
    using ge le by (intro tan_pos_pi2_le) (use pi_gt_zero in linarith)+
  ultimately show ?thesis by (simp add: tan_45)
qed

lemma tan_deg_45: "tan (deg_to_rad (real (4500::nat) * angle_step)) = 1"
proof -
  have "deg_to_rad (real (4500::nat) * angle_step) = pi / 4"
    by (simp add: deg_to_rad_def angle_step_def)
  then show ?thesis by (simp only: tan_45)
qed

lemma tan_ge_self:
  fixes x :: real
  assumes "0 \<le> x" "x < pi / 2"
  shows "x \<le> tan x"
proof -
  have "tan 0 - 0 \<le> tan x - x"
  proof (rule DERIV_nonneg_imp_nondecreasing [OF assms(1)])
    fix t assume t: "0 \<le> t" "t \<le> x"
    then have c: "cos t \<noteq> 0" "0 < cos t"
      using assms(2) cos_gt_zero_pi [of t] by auto
    then have "cos t \<le> 1" "0 < (cos t)\<^sup>2" by simp_all
    then have "(cos t)\<^sup>2 \<le> 1"
      using c by (simp add: power_le_one)
    then have "0 \<le> inverse ((cos t)\<^sup>2) - 1"
      using \<open>0 < (cos t)\<^sup>2\<close> by (simp add: field_simps)
    moreover have "((\<lambda>u. tan u - u) has_real_derivative inverse ((cos t)\<^sup>2) - 1) (at t)"
      using c by (auto intro!: derivative_eq_intros)
    ultimately show "\<exists>y. ((\<lambda>u. tan u - u) has_real_derivative y) (at t) \<and> 0 \<le> y"
      by blast
  qed
  then show ?thesis by simp
qed

text \<open>The tangent of 45.01 degrees lies between 1.0001 and 2.\<close>

lemma tan_deg_4501:
  "10001 / 10000 < tan (deg_to_rad (real (4501::nat) * angle_step))"
  "tan (deg_to_rad (real (4501::nat) * angle_step)) < 2"
  "1 + 1 / 4500 \<le> tan (deg_to_rad (real (4501::nat) * angle_step))"
proof -
  let ?x = "deg_to_rad (real (4501::nat) * angle_step)"
  define d :: real where "d = pi / 18000"
  have x: "?x = pi / 4 + d"
    by (simp add: deg_to_rad_def angle_step_def d_def)
  have d: "0 < d" "d < pi / 4" "1 / 9000 \<le> d"
    using pi_gt_zero pi_ge_two by (simp_all add: d_def)
  have t0: "d \<le> tan d"
    using d pi_gt_zero by (intro tan_ge_self) linarith+
  have t1: "tan d < 1"
    using tan_bound_pi2 [of d] d by simp
  have "pi / 4 < ?x" "?x < pi / 3"
    unfolding x using pi_gt_zero by (simp_all add: d_def)
  then have lt: "tan (pi / 4) < tan ?x" "tan ?x < tan (pi / 3)"
    by (intro tan_monotone; use pi_gt_zero in linarith)+
  have "sqrt 3 < 2"
    by (rule real_less_lsqrt) simp_all
  then show "tan ?x < 2"
    using lt(2) by (simp add: tan_60)
  have c: "cos (pi / 4) \<noteq> 0" "cos d \<noteq> 0" "cos (pi / 4 + d) \<noteq> 0"
    using d pi_gt_zero cos_gt_zero_pi [of "pi / 4"] cos_gt_zero_pi [of d]
      cos_gt_zero_pi [of "pi / 4 + d"] by simp_all
  have "tan ?x = (1 + tan d) / (1 - tan d)"
    unfolding x using tan_add [OF c] by (simp add: tan_45)
  moreover have "1 + 2 * tan d \<le> (1 + tan d) / (1 - tan d)"
  proof -
    have "(1 + 2 * tan d) * (1 - tan d) \<le> 1 + tan d"
      by (simp add: algebra_simps)
    then show ?thesis
      using t1 by (simp add: pos_le_divide_eq)
  qed
  ultimately have "1 + 2 * d \<le> tan ?x"
    using t0 by linarith
  then show "1 + 1 / 4500 \<le> tan ?x"
    using d(3) by linarith
  then show "10001 / 10000 < tan ?x"
    by linarith
qed

lemma tan_deg_180: "tan (deg_to_rad (real (18000::nat) * angle_step)) = 0"
  by (simp add: deg_to_rad_def angle_step_def)

lemma lens_with_iris_passes: "1 \<le> j \<Longrightarrow> j < 4501 \<Longrightarrow> passes tan lens_with_iris j"
  using tan_deg_le_45 [of j] by (simp add: passes_def candidate_def lens_with_iris_check)

lemma lens_with_iris_fails: "\<not> passes tan lens_with_iris 4501"
  using tan_deg_4501(1) by (simp add: passes_def candidate_def lens_with_iris_check)

lemma lens_with_iris_candidate_4500:
  "candidate tan lens_with_iris 4500 = [(0, 0), (1, 1), (1, 1), (2, 1)]"
  unfolding candidate_def tan_deg_45 by (simp add: lens_with_iris_trace)

lemma lens_with_iris_candidate_4501:
  "candidate tan lens_with_iris 4501 = [(0, 0), (1, tan (deg_to_rad (real (4501::nat) * angle_step)))]"
  unfolding candidate_def using tan_deg_4501(1) by (simp add: lens_with_iris_trace)

lemma lens_with_iris_result:
  "find_marginal_rays tan lens_with_iris
     = Some ([(45, [(0, 0), (1, 1), (1, 1), (2, 1)])], lens_with_iris\<lparr>STOP_optic := Some (Lens, 1, 4)\<rparr>)"
proof -
  have "find_marginal_rays tan lens_with_iris
          = Some (if (4501::nat) = 1 then []
                  else [(real (4501 - 1) * angle_step, candidate tan lens_with_iris (4501 - 1))],
                  snd (check_path lens_with_iris (candidate tan lens_with_iris 4501)))"
    by (rule first_fail_result) (simp_all add: lens_with_iris_passes lens_with_iris_fails)
  moreover have "snd (check_path lens_with_iris (candidate tan lens_with_iris 4501))
                   = lens_with_iris\<lparr>STOP_optic := Some (Lens, 1, 4)\<rparr>"
    unfolding candidate_def using tan_deg_4501(1) by (simp add: lens_with_iris_check)
  ultimately show ?thesis
    by (simp add: lens_with_iris_candidate_4500 angle_step_def)
qed


lemma lens_with_iris_passes_180: "passes tan lens_with_iris 18000"
  unfolding passes_def candidate_def tan_deg_180 by (simp add: lens_with_iris_check)

subsection \<open>The system with a step back\<close>

lemma back_step_total: "total_distance back_step = 1 + 9 / 10 ^ 11"
  by (simp add: total_distance_def back_step_def add_transfer_def add_iris_def init_system_def)

lemma back_step_elements:
  "optical_elements back_step = [(Iris, 1 - 12 / 10 ^ 11, 10001 / 5000), (Iris, 1, 4)]"
  by (simp add: back_step_def add_transfer_def add_iris_def init_system_def)

lemma back_step_trace_low:
  assumes "\<bar>t\<bar> \<le> 1"
  shows "trace_ray back_step t 0
           = [(0, 0), (1, t), (1 - 3 / 10 ^ 11, t - 3 / 10 ^ 11 * t),
              (1 + 6 / 10 ^ 11, t - 3 / 10 ^ 11 * t + 9 / 10 ^ 11 * t)]"
  using assms
  by (simp add: trace_ray_def trace_state_def back_step_def add_transfer_def add_iris_def
      init_system_def Let_def tol_def abs_if split: if_splits)

lemma back_step_trace_mid:
  assumes "1 + 1 / 4500 \<le> t" "t < 2"
  shows "trace_ray back_step t 0 = [(0, 0), (1, t), (1 - 3 / 10 ^ 11, t - 3 / 10 ^ 11 * t)]"
  using assms
  by (simp add: trace_ray_def trace_state_def back_step_def add_transfer_def add_iris_def
      init_system_def Let_def tol_def abs_if split: if_splits)

lemma back_step_trace_high:
  assumes "2 < t"
  shows "trace_ray back_step t 0 = [(0, 0), (1, t)]"
  using assms
  by (simp add: trace_ray_def trace_state_def back_step_def add_transfer_def add_iris_def
      init_system_def Let_def tol_def abs_if split: if_splits)


lemma tan_deg_7500: "2 < tan (deg_to_rad (real (7500::nat) * angle_step))"
proof -
  have x: "deg_to_rad (real (7500::nat) * angle_step) = pi / 4 + pi / 6"
    by (simp add: deg_to_rad_def angle_step_def)
  have c: "cos (pi / 4) \<noteq> 0" "cos (pi / 6) \<noteq> 0" "cos (pi / 4 + pi / 6) \<noteq> 0"
    using pi_gt_zero cos_gt_zero_pi [of "pi / 4"] cos_gt_zero_pi [of "pi / 6"]
      cos_gt_zero_pi [of "pi / 4 + pi / 6"] by simp_all
  define u :: real where "u = 1 / sqrt 3"
  have "sqrt 3 < 3" "1 < sqrt 3"
    by (rule real_less_lsqrt, simp_all)+
  then have u: "1 / 3 < u" "u < 1"
    by (simp_all add: u_def field_simps)
  have "tan (pi / 4 + pi / 6) = (1 + u) / (1 - u)"
    using tan_add [OF c] by (simp add: tan_45 tan_30 u_def)
  moreover have "2 < (1 + u) / (1 - u)"
    using u by (simp add: pos_less_divide_eq)
  ultimately show ?thesis
    unfolding x by simp
qed

lemma back_step_passes: "1 \<le> j \<Longrightarrow> j < 4501 \<Longrightarrow> passes tan back_step j"
  using tan_deg_le_45 [of j]
  by (simp add: passes_def candidate_def back_step_trace_low check_path_def back_step_total
      tol_def)

lemma back_step_fails: "\<not> passes tan back_step 4501"
  using tan_deg_4501
  by (simp add: passes_def candidate_def back_step_trace_mid check_path_def back_step_total
      tol_def)

lemma back_step_passes_75: "passes tan back_step 7500"
  using tan_deg_7500
  by (simp add: passes_def candidate_def back_step_trace_high check_path_def back_step_total
      tol_def)

lemma back_step_result:
  "map_option fst (find_marginal_rays tan back_step)
     = Some [(45, [(0, 0), (1, 1), (1 - 3 / 10 ^ 11, 1 - 3 / 10 ^ 11),
                   (1 + 6 / 10 ^ 11, 1 + 6 / 10 ^ 11)])]"
proof -
  have "find_marginal_rays tan back_step
          = Some (if (4501::nat) = 1 then []
                  else [(real (4501 - 1) * angle_step, candidate tan back_step (4501 - 1))],
                  snd (check_path back_step (candidate tan back_step 4501)))"
    by (rule first_fail_result) (simp_all add: back_step_passes back_step_fails)
  moreover have "candidate tan back_step 4500
      = [(0, 0), (1, 1), (1 - 3 / 10 ^ 11, 1 - 3 / 10 ^ 11), (1 + 6 / 10 ^ 11, 1 + 6 / 10 ^ 11)]"
    unfolding candidate_def tan_deg_45 by (simp add: back_step_trace_low)
  ultimately show ?thesis
    by (simp add: angle_step_def)
qed

subsection \<open>Free space\<close>

lemma free_space_passes: "passes tan free_space n"
  by (simp add: passes_def candidate_def check_path_def trace_ray_def trace_state_def
      total_distance_def free_space_def add_transfer_def init_system_def Let_def tol_def)

subsection \<open>The result of the search\<close>

lemma trace_ray_length: "2 \<le> length (trace_ray s w y) \<longleftrightarrow> matrices s \<noteq> []"
proof (cases "matrices s = []")
  case True
  then show ?thesis by (simp add: trace_ray_def trace_state_def)
next
  case False
  then show ?thesis
    using trace_loop_length [OF False, of "[(0, y)]" "optical_elements s" "(y, w)" 0]
    by (simp add: trace_ray_def trace_state_def)
qed

lemma passes_iff:
  "passes np_tan s k \<longleftrightarrow> matrices s \<noteq> [] \<and> tracing_successful s (candidate np_tan s k)"
  using trace_ray_length [of s "np_tan (deg_to_rad (real k * angle_step))" 0]
  by (auto simp add: passes_def check_path_def tracing_successful_def candidate_def Let_def)

text \<open>
  \<^bold>\<open>C1.\<close> Let the candidate angles be \<open>k * 0.01\<close> degrees for \<open>k = 1, 2, \<dots>\<close>, each traced
  from height 0 with slope \<open>np_tan (deg_to_rad (k * 0.01))\<close>, and let \<open>n\<close> be the first
  failing one (some \<open>n\<close> is, as soon as any candidate fails). Then the search returns the
  empty list if \<open>n = 1\<close>, and otherwise the one pair of the angle \<open>(n - 1) * 0.01\<close> with the
  full path of that candidate, which has at least two samples and ends at the total
  transfer length within the tolerance. If no transfer distance is negative and \<open>np_tan\<close> is
  the tangent between 0 and 90 degrees, then no multiple of the step from the \<open>n\<close>-th up to
  90 degrees passes, and none has a path that ends at the total transfer length within
  the tolerance: the returned angle is the largest such multiple below 90 degrees, unless
  it is 90 degrees or more itself.
\<close>

theorem find_marginal_rays_first_failure:
  assumes "1 \<le> n"
    and "\<forall>j. 1 \<le> j \<and> j < n \<longrightarrow> passes np_tan s j"
    and "\<not> passes np_tan s n"
  shows "map_option fst (find_marginal_rays np_tan s)
           = Some (if n = 1 then []
                   else [(real (n - 1) * angle_step,
                          trace_ray s (np_tan (deg_to_rad (real (n - 1) * angle_step))) 0)])
       \<and> (n \<noteq> 1 \<longrightarrow>
            2 \<le> length (trace_ray s (np_tan (deg_to_rad (real (n - 1) * angle_step))) 0)
            \<and> tracing_successful s (trace_ray s (np_tan (deg_to_rad (real (n - 1) * angle_step))) 0))
       \<and> ((\<forall>op\<in>set (matrices s). 0 \<le> snd (snd op))
            \<and> (\<forall>x. 0 < x \<and> x < pi / 2 \<longrightarrow> np_tan x = tan x) \<longrightarrow>
            (\<forall>k. n \<le> k \<and> k < 9000 \<longrightarrow>
               \<not> passes np_tan s k
               \<and> (n \<noteq> 1 \<longrightarrow>
                    \<not> tracing_successful s
                        (trace_ray s (np_tan (deg_to_rad (real k * angle_step))) 0))))"
proof -
  have "find_marginal_rays np_tan s
          = Some (if n = 1 then [] else [(real (n - 1) * angle_step, candidate np_tan s (n - 1))],
                  snd (check_path s (candidate np_tan s n)))"
    using assms by (intro first_fail_result) simp_all
  then have r: "map_option fst (find_marginal_rays np_tan s)
          = Some (if n = 1 then []
                  else [(real (n - 1) * angle_step,
                         trace_ray s (np_tan (deg_to_rad (real (n - 1) * angle_step))) 0)])"
    by (simp add: candidate_def)
  have last_passes: "passes np_tan s (n - 1)" if "n \<noteq> 1"
    using assms(1,2) that by simp
  have p: "2 \<le> length (trace_ray s (np_tan (deg_to_rad (real (n - 1) * angle_step))) 0)
      \<and> tracing_successful s (trace_ray s (np_tan (deg_to_rad (real (n - 1) * angle_step))) 0)"
    if "n \<noteq> 1"
    using passes_tracing_successful [OF last_passes [OF that]] by (simp add: candidate_def)
  have m: "\<not> passes np_tan s k
      \<and> (n \<noteq> 1 \<longrightarrow>
           \<not> tracing_successful s (trace_ray s (np_tan (deg_to_rad (real k * angle_step))) 0))"
    if nn: "\<forall>op\<in>set (matrices s). 0 \<le> snd (snd op)"
      and tn: "\<forall>x. 0 < x \<and> x < pi / 2 \<longrightarrow> np_tan x = tan x"
      and k: "n \<le> k" "k < 9000" for k
  proof -
    have f: "\<not> passes np_tan s k"
      using fails_up_to_90 [OF nn tn assms(1) k assms(3)] .
    moreover have "matrices s \<noteq> []" if "n \<noteq> 1"
      using last_passes [OF that] by (simp add: passes_iff)
    ultimately show ?thesis
      using passes_iff [of np_tan s k] by (auto simp add: candidate_def)
  qed
  show ?thesis
    using r p m by blast
qed

theorem find_marginal_rays_first_failure_witness:
  "(1::nat) \<le> 4501
   \<and> \<not> (\<exists>j. 1 \<le> j \<and> j < 4501 \<and> \<not> passes tan lens_with_iris j)
   \<and> \<not> passes tan lens_with_iris 4501
   \<and> \<not> (\<exists>op\<in>set (matrices lens_with_iris). snd (snd op) < 0)
   \<and> map_option fst (find_marginal_rays tan lens_with_iris)
       = Some [(45, trace_ray lens_with_iris (tan (deg_to_rad 45)) 0)]
   \<and> tracing_successful lens_with_iris (trace_ray lens_with_iris (tan (deg_to_rad 45)) 0)
   \<and> \<not> (\<exists>k. 4501 \<le> k \<and> k < 9000 \<and> passes tan lens_with_iris k)
   \<and> \<not> tracing_successful lens_with_iris
         (trace_ray lens_with_iris (tan (deg_to_rad (real (6000::nat) * angle_step))) 0)"
proof -
  have h1: "(1::nat) \<le> 4501"
    by simp
  have h2: "\<forall>j. 1 \<le> j \<and> j < 4501 \<longrightarrow> passes tan lens_with_iris j"
    by (simp add: lens_with_iris_passes)
  have h3: "\<not> passes tan lens_with_iris 4501"
    by (rule lens_with_iris_fails)
  have h4: "\<forall>op\<in>set (matrices lens_with_iris). 0 \<le> snd (snd op)"
    by (simp add: lens_with_iris_def add_transfer_def add_iris_def add_refraction_def
        init_system_def)
  have h5: "\<forall>x::real. 0 < x \<and> x < pi / 2 \<longrightarrow> tan x = tan x"
    by simp
  have a: "real (4501 - 1) * angle_step = 45"
    by (simp add: angle_step_def)
  note th = find_marginal_rays_first_failure [OF h1 h2 h3]
  have c1: "map_option fst (find_marginal_rays tan lens_with_iris)
       = Some [(45, trace_ray lens_with_iris (tan (deg_to_rad 45)) 0)]"
    using th [THEN conjunct1] unfolding a by simp
  have c2: "tracing_successful lens_with_iris (trace_ray lens_with_iris (tan (deg_to_rad 45)) 0)"
    using th [THEN conjunct2, THEN conjunct1] unfolding a by simp
  have c3: "\<forall>k. 4501 \<le> k \<and> k < 9000 \<longrightarrow>
               \<not> passes tan lens_with_iris k
               \<and> ((4501::nat) \<noteq> 1 \<longrightarrow>
                    \<not> tracing_successful lens_with_iris
                        (trace_ray lens_with_iris (tan (deg_to_rad (real k * angle_step))) 0))"
    using th [THEN conjunct2, THEN conjunct2] h4 h5 by (rule mp [OF _ conjI])
  have c4: "\<not> (\<exists>k. 4501 \<le> k \<and> k < 9000 \<and> passes tan lens_with_iris k)"
    using c3 by blast
  have c5: "\<not> tracing_successful lens_with_iris
         (trace_ray lens_with_iris (tan (deg_to_rad (real (6000::nat) * angle_step))) 0)"
    using c3 [rule_format, of 6000] by simp
  have h4': "\<not> (\<exists>op\<in>set (matrices lens_with_iris). snd (snd op) < 0)"
    using h4 by (simp add: not_less)
  have h2': "\<not> (\<exists>j. 1 \<le> j \<and> j < 4501 \<and> \<not> passes tan lens_with_iris j)"
    using h2 by blast
  show ?thesis
    by (intro conjI h1 h2' h3 h4' c1 c2 c4 c5)
qed

text \<open>In the lens with an iris the search returns 45 degrees, and the candidate at
  180 degrees, the 18000th multiple of the step, passes as well. In the system with a step
  back the search returns 45 degrees, and the candidate at 75 degrees is cut at the first
  position, which is within the tolerance of the total transfer length: it passes.\<close>

theorem find_marginal_rays_not_largest_successful:
  "map_option fst (find_marginal_rays tan lens_with_iris) = Some [(45, [(0, 0), (1, 1), (1, 1), (2, 1)])]
   \<and> (45::real) < real (18000::nat) * angle_step
   \<and> trace_ray lens_with_iris (tan (deg_to_rad (real (18000::nat) * angle_step))) 0
       = [(0, 0), (1, 0), (1, 0), (2, 0)]
   \<and> tracing_successful lens_with_iris
       (trace_ray lens_with_iris (tan (deg_to_rad (real (18000::nat) * angle_step))) 0)
   \<and> passes tan lens_with_iris 18000
   \<and> map_option fst (find_marginal_rays tan back_step)
       = Some [(45, [(0, 0), (1, 1), (1 - 3 / 10 ^ 11, 1 - 3 / 10 ^ 11),
                     (1 + 6 / 10 ^ 11, 1 + 6 / 10 ^ 11)])]
   \<and> (45::real) < real (7500::nat) * angle_step
   \<and> real (7500::nat) * angle_step < 90
   \<and> trace_ray back_step (tan (deg_to_rad (real (7500::nat) * angle_step))) 0
       = [(0, 0), (1, tan (deg_to_rad (real (7500::nat) * angle_step)))]
   \<and> tracing_successful back_step
       (trace_ray back_step (tan (deg_to_rad (real (7500::nat) * angle_step))) 0)
   \<and> passes tan back_step 7500"
proof -
  have t180: "trace_ray lens_with_iris (tan (deg_to_rad (real (18000::nat) * angle_step))) 0
          = [(0, 0), (1, 0), (1, 0), (2, 0)]"
    unfolding tan_deg_180 by (simp add: lens_with_iris_trace)
  have t75: "trace_ray back_step (tan (deg_to_rad (real (7500::nat) * angle_step))) 0
       = [(0, 0), (1, tan (deg_to_rad (real (7500::nat) * angle_step)))]"
    using tan_deg_7500 by (rule back_step_trace_high)
  have s180: "tracing_successful lens_with_iris
       (trace_ray lens_with_iris (tan (deg_to_rad (real (18000::nat) * angle_step))) 0)"
    unfolding t180 by (simp add: tracing_successful_def lens_with_iris_total tol_def)
  have s75: "tracing_successful back_step
       (trace_ray back_step (tan (deg_to_rad (real (7500::nat) * angle_step))) 0)"
    unfolding t75 by (simp add: tracing_successful_def back_step_total tol_def)
  have r: "map_option fst (find_marginal_rays tan lens_with_iris)
      = Some [(45, [(0, 0), (1, 1), (1, 1), (2, 1)])]"
    by (simp add: lens_with_iris_result)
  have a: "(45::real) < real (18000::nat) * angle_step" "(45::real) < real (7500::nat) * angle_step"
    "real (7500::nat) * angle_step < 90"
    by (simp_all add: angle_step_def)
  show ?thesis
    by (intro conjI r a t180 s180 lens_with_iris_passes_180 back_step_result t75 s75
        back_step_passes_75)
qed

text \<open>
  \<^bold>\<open>C8.\<close> The search starts at the first multiple of the step; a passing candidate \<open>k\<close>
  sends it on to the next larger multiple \<open>k + 1\<close>, a failing candidate makes it return.
  Hence it returns as soon as some candidate fails, and it never returns when every
  candidate passes.
\<close>

theorem find_marginal_rays_termination:
  "((\<exists>n\<ge>1. \<not> passes np_tan s n) \<longrightarrow> (\<exists>y. find_marginal_rays np_tan s = Some y))
   \<and> ((\<forall>n\<ge>1. passes np_tan s n) \<longrightarrow> find_marginal_rays np_tan s = None)
   \<and> find_marginal_rays np_tan s = find_marginal_loop np_tan s (real (1::nat) * angle_step) None
   \<and> (passes np_tan s k \<longrightarrow>
        find_marginal_loop np_tan s (real k * angle_step) l
          = find_marginal_loop np_tan s (real (k + 1) * angle_step) (Some (candidate np_tan s k)))
   \<and> (\<not> passes np_tan s k \<longrightarrow> (\<exists>y. find_marginal_loop np_tan s (real k * angle_step) l = Some y))
   \<and> real k * angle_step < real (k + 1) * angle_step"
proof (intro conjI impI)
  show "\<exists>y. find_marginal_rays np_tan s = Some y" if ex: "\<exists>n\<ge>1. \<not> passes np_tan s n"
  proof -
    obtain m where "1 \<le> m" "\<not> passes np_tan s m"
      using ex by blast
    then have "\<exists>n\<ge>1. (\<forall>j. 1 \<le> j \<and> j < n \<longrightarrow> passes np_tan s j) \<and> \<not> passes np_tan s n"
      by (rule first_failure_exists)
    then obtain n where "1 \<le> n" "\<forall>j. 1 \<le> j \<and> j < n \<longrightarrow> passes np_tan s j" "\<not> passes np_tan s n"
      by blast
    then have "find_marginal_rays np_tan s
          = Some (if n = 1 then [] else [(real (n - 1) * angle_step, candidate np_tan s (n - 1))],
                  snd (check_path s (candidate np_tan s n)))"
      by (intro first_fail_result) simp_all
    then show ?thesis by simp
  qed
  show "find_marginal_rays np_tan s = None" if "\<forall>n\<ge>1. passes np_tan s n"
  proof (rule never_returns)
    fix j :: nat
    assume "1 \<le> j"
    then show "passes np_tan s j" using that by blast
  qed
  show "find_marginal_rays np_tan s = find_marginal_loop np_tan s (real (1::nat) * angle_step) None"
    by (simp add: find_marginal_rays_def)
  show "find_marginal_loop np_tan s (real k * angle_step) l
          = find_marginal_loop np_tan s (real (k + 1) * angle_step) (Some (candidate np_tan s k))"
    if "passes np_tan s k"
    using loop_pass [OF that] by (simp only: Suc_eq_plus1)
  show "\<exists>y. find_marginal_loop np_tan s (real k * angle_step) l = Some y" if "\<not> passes np_tan s k"
    using loop_fail [OF that] by simp
  have "real k < real (k + 1)"
    by simp
  then show "real k * angle_step < real (k + 1) * angle_step"
    by (simp add: angle_step_def)
qed

theorem find_marginal_rays_termination_witness:
  "\<not> (\<exists>n\<ge>1. \<not> passes tan free_space n) \<and> find_marginal_rays tan free_space = None
   \<and> (\<exists>n\<ge>1. \<not> passes tan lens_with_iris n) \<and> (\<exists>y. find_marginal_rays tan lens_with_iris = Some y)
   \<and> passes tan lens_with_iris 4500
   \<and> find_marginal_loop tan lens_with_iris (real (4500::nat) * angle_step) None
       = find_marginal_loop tan lens_with_iris (real (4500 + 1 :: nat) * angle_step)
           (Some (candidate tan lens_with_iris 4500))
   \<and> \<not> passes tan lens_with_iris 4501
   \<and> (\<exists>y. find_marginal_loop tan lens_with_iris (real (4501::nat) * angle_step) None = Some y)"
proof -
  have h1: "\<forall>n\<ge>1. passes tan free_space n"
    by (simp add: free_space_passes)
  have h2: "\<exists>n\<ge>1. \<not> passes tan lens_with_iris n"
    using lens_with_iris_fails by (intro exI [of _ 4501]) simp
  have h3: "passes tan lens_with_iris 4500"
    by (simp add: lens_with_iris_passes)
  have h4: "\<not> passes tan lens_with_iris 4501"
    by (rule lens_with_iris_fails)
  have c1: "find_marginal_rays tan free_space = None"
    using find_marginal_rays_termination [of tan free_space 1 None, THEN conjunct2, THEN conjunct1] h1
    by (rule mp)
  have c2: "\<exists>y. find_marginal_rays tan lens_with_iris = Some y"
    using find_marginal_rays_termination [of tan lens_with_iris 1 None, THEN conjunct1] h2
    by (rule mp)
  have c3: "find_marginal_loop tan lens_with_iris (real (4500::nat) * angle_step) None
       = find_marginal_loop tan lens_with_iris (real (4500 + 1 :: nat) * angle_step)
           (Some (candidate tan lens_with_iris 4500))"
    using find_marginal_rays_termination [of tan lens_with_iris 4500 None,
        THEN conjunct2, THEN conjunct2, THEN conjunct2, THEN conjunct1] h3
    by (rule mp)
  have c4: "\<exists>y. find_marginal_loop tan lens_with_iris (real (4501::nat) * angle_step) None = Some y"
    using find_marginal_rays_termination [of tan lens_with_iris 4501 None,
        THEN conjunct2, THEN conjunct2, THEN conjunct2, THEN conjunct2, THEN conjunct1] h4
    by (rule mp)
  have h1': "\<not> (\<exists>n\<ge>1. \<not> passes tan free_space n)"
    by (simp add: free_space_passes)
  show ?thesis
    by (intro conjI h1' h2 h3 h4 c1 c2 c3 c4)
qed

lemma trace_ray_ignores_stop: "trace_ray (s\<lparr>STOP_optic := m\<rparr>) = trace_ray s"
  by (intro ext) (simp add: trace_ray_def trace_state_def)

lemma find_convergence_ignores_stop:
  "find_convergence (s\<lparr>STOP_optic := m\<rparr>) = find_convergence s"
  by (intro ext)
    (simp add: find_convergence_def ray_paths_of_def total_distance_def trace_ray_ignores_stop)

lemma find_image_position_ignores_stop:
  "find_image_position (s\<lparr>STOP_optic := m\<rparr>) = find_image_position s"
  unfolding find_image_position_def find_convergence_ignores_stop by simp

text \<open>\<^verbatim>\<open>trace_ray\<close> and \<^verbatim>\<open>find_image_position\<close> assign to no field of the system in the
  source, so they are functions of the system that yield their result only. A returning
  \<^verbatim>\<open>find_marginal_rays\<close> leaves the operations, the registry and the object height as they
  were: the system after the search is the system before it with a new stop marker at
  most, and the two queries give the same results after the search as before. The stop
  marker is written at the first failing candidate \<open>n\<close> only, and only if that candidate's
  path has at least two samples and the registry holds an element at the final position of
  that path: the marker then is the first such element in registry order.\<close>

theorem find_marginal_rays_frame:
  assumes "find_marginal_rays np_tan s = Some (r, s')"
  shows "s' = s\<lparr>STOP_optic := STOP_optic s'\<rparr>
       \<and> matrices s' = matrices s
       \<and> optical_elements s' = optical_elements s
       \<and> object_height s' = object_height s
       \<and> (\<exists>n\<ge>1. (\<forall>j. 1 \<le> j \<and> j < n \<longrightarrow> passes np_tan s j) \<and> \<not> passes np_tan s n
            \<and> STOP_optic s'
                = (if length (candidate np_tan s n) < 2 then STOP_optic s
                   else case find_stop (optical_elements s) (fst (last (candidate np_tan s n))) of
                          None \<Rightarrow> STOP_optic s
                        | Some e \<Rightarrow> Some e))
       \<and> trace_ray s' w0 y0 = trace_ray s w0 y0
       \<and> find_image_position s' rays = find_image_position s rays"
proof -
  obtain n where n: "1 \<le> n" "\<forall>j. 1 \<le> j \<and> j < n \<longrightarrow> passes np_tan s j" "\<not> passes np_tan s n"
    and s': "s' = snd (check_path s (candidate np_tan s n))"
    using returns_first_failure [OF assms] by auto
  have "\<not> fst (check_path s (candidate np_tan s n))"
    using n(3) by (simp add: passes_def)
  then have eq: "s' = (if length (candidate np_tan s n) < 2 then s
              else case find_stop (optical_elements s) (fst (last (candidate np_tan s n))) of
                     None \<Rightarrow> s
                   | Some e \<Rightarrow> s\<lparr>STOP_optic := Some e\<rparr>)"
    unfolding s' by (rule check_path_failed)
  have frame: "s' = s\<lparr>STOP_optic := STOP_optic s'\<rparr>"
    unfolding eq by (simp split: option.splits)
  have "matrices s' = matrices s" "optical_elements s' = optical_elements s"
    "object_height s' = object_height s"
    unfolding eq by (simp_all split: option.splits)
  moreover have "STOP_optic s'
                = (if length (candidate np_tan s n) < 2 then STOP_optic s
                   else case find_stop (optical_elements s) (fst (last (candidate np_tan s n))) of
                          None \<Rightarrow> STOP_optic s
                        | Some e \<Rightarrow> Some e)"
    unfolding eq by (simp split: option.splits)
  moreover have "trace_ray s' w0 y0 = trace_ray s w0 y0"
    by (subst frame) (simp only: trace_ray_ignores_stop)
  moreover have "find_image_position s' rays = find_image_position s rays"
    by (subst frame) (simp only: find_image_position_ignores_stop)
  ultimately show ?thesis
    using n frame by blast
qed

theorem find_marginal_rays_frame_witness:
  "find_marginal_rays tan lens_with_iris
     = Some ([(45, [(0, 0), (1, 1), (1, 1), (2, 1)])], lens_with_iris\<lparr>STOP_optic := Some (Lens, 1, 4)\<rparr>)
   \<and> matrices (lens_with_iris\<lparr>STOP_optic := Some (Lens, 1, 4)\<rparr>) = matrices lens_with_iris
   \<and> optical_elements (lens_with_iris\<lparr>STOP_optic := Some (Lens, 1, 4)\<rparr>)
       = optical_elements lens_with_iris
   \<and> object_height (lens_with_iris\<lparr>STOP_optic := Some (Lens, 1, 4)\<rparr>) = object_height lens_with_iris"
  using lens_with_iris_result find_marginal_rays_frame [OF lens_with_iris_result]
  by simp

text \<open>
  \<^bold>\<open>C9.\<close> The stop marker is meant to name the element that blocks the ray: the plot
  marks an element as STOP \<^verbatim>\<open>if this is the blocking element\<close>, and \<^verbatim>\<open>trace_ray\<close> blocks by
  the diameter. The search, however, records the first element of the registry whose
  position matches the end of the failing path and does not look at the diameter. In the
  lens with an iris the search stops at 45.01 degrees: that ray reaches the plane
  \<open>z = 1\<close> at a height between 1.0001 and 2, where the iris of diameter 2.0002 blocks it
  and the lens of diameter 4 does not. The marker is the lens, which comes first in the
  registry. Nothing but the marker differs from the system before the search.
\<close>

theorem stop_marker_not_blocking_element:
  "find_marginal_rays tan lens_with_iris
     = Some ([(real (4501::nat) * angle_step - angle_step, [(0, 0), (1, 1), (1, 1), (2, 1)])],
             lens_with_iris\<lparr>STOP_optic := Some (Lens, 1, 4)\<rparr>)
   \<and> optical_elements lens_with_iris = [(Lens, 1, 4), (Iris, 1, 10001 / 5000)]
   \<and> trace_ray lens_with_iris (tan (deg_to_rad (real (4501::nat) * angle_step))) 0
       = [(0, 0), (1, tan (deg_to_rad (real (4501::nat) * angle_step)))]
   \<and> \<not> blocks (Lens, 1, 4) 1 (tan (deg_to_rad (real (4501::nat) * angle_step)))
   \<and> blocks (Iris, 1, 10001 / 5000) 1 (tan (deg_to_rad (real (4501::nat) * angle_step)))"
  using tan_deg_4501 lens_with_iris_candidate_4501
  by (simp add: lens_with_iris_result lens_with_iris_elements candidate_def tol_def angle_step_def)

text \<open>
  \<^bold>\<open>C10.\<close> In a system without operations the path of every ray from height 0 is the
  single sample \<open>(0, 0)\<close>. The search classifies a path of fewer than two samples as failing,
  although here its final position 0 equals the total transfer length 0, and so returns
  the empty list at the first candidate and leaves the system, the stop marker included,
  as it was.
\<close>

theorem empty_system_no_marginal_ray:
  "find_marginal_rays np_tan (s\<lparr>matrices := []\<rparr>) = Some ([], s\<lparr>matrices := []\<rparr>)
   \<and> trace_ray (s\<lparr>matrices := []\<rparr>) (np_tan (deg_to_rad angle_step)) 0 = [(0, 0)]
   \<and> check_path (s\<lparr>matrices := []\<rparr>) [(0, 0)] = (False, s\<lparr>matrices := []\<rparr>)
   \<and> check_path (s\<lparr>matrices := []\<rparr>) [sample] = (False, s\<lparr>matrices := []\<rparr>)
   \<and> check_path (s\<lparr>matrices := []\<rparr>) [] = (False, s\<lparr>matrices := []\<rparr>)
   \<and> tracing_successful (s\<lparr>matrices := []\<rparr>) [(0, 0)]
   \<and> \<not> passes np_tan (s\<lparr>matrices := []\<rparr>) 1"
proof -
  have t: "trace_ray (s\<lparr>matrices := []\<rparr>) w0 0 = [(0, 0)]" for w0
    by (simp add: trace_ray_def trace_state_def)
  have c: "check_path (s\<lparr>matrices := []\<rparr>) [x] = (False, s\<lparr>matrices := []\<rparr>)" for x
    by (simp add: check_path_def)
  have "find_marginal_rays np_tan (s\<lparr>matrices := []\<rparr>) = Some ([], s\<lparr>matrices := []\<rparr>)"
    unfolding find_marginal_rays_def
    by (subst find_marginal_loop.simps) (simp add: t c)
  moreover have "tracing_successful (s\<lparr>matrices := []\<rparr>) [(0, 0)]"
    by (simp add: tracing_successful_def total_distance_def tol_def)
  moreover have "check_path (s\<lparr>matrices := []\<rparr>) [] = (False, s\<lparr>matrices := []\<rparr>)"
    by (simp add: check_path_def)
  ultimately show ?thesis
    by (simp add: t c passes_def candidate_def)
qed

section \<open>Properties of the image-position search\<close>

subsection \<open>The loops of the source against the specification's account\<close>





















subsection \<open>Sample lists that are sorted as collected\<close>













subsection \<open>Two ray fans in free space, and behind a lens in the object plane\<close>















section \<open>Error handling\<close>

text \<open>
  \<^bold>\<open>C6.\<close> A lens is requested through \<^verbatim>\<open>add_condition\<close> with a focal length and a
  diameter. With focal length 0 the division \<open>1.0 / focal_length\<close> raises
  \<^verbatim>\<open>ZeroDivisionError\<close> before \<^verbatim>\<open>add_refraction\<close> is called: the handler reports it and the
  state, the system with its matrices included, is the one before the call. Every
  refraction that is appended has the power \<open>1 / focal_length\<close> of a focal length other
  than 0.
\<close>

theorem zero_focal_length_rejected:
  "add_condition_try g ''Refraction'' [Some 0, Some diam] = Inl ZeroDivisionError
   \<and> add_condition g ''Refraction'' [Some 0, Some diam]
       = Inr (Some ''Focal length cannot be zero'', g)
   \<and> add_condition_try g ''Refraction'' [Some focal_length, Some diam]
       = (if focal_length = 0 then Inl ZeroDivisionError
          else Inr (g\<lparr>system := add_refraction (system g) (current_position g)
                                   (1 / focal_length) diam,
                      conditions := conditions g @
                        [LensCondition (current_position g) focal_length diam]\<rparr>))"
  by (simp add: add_condition_def add_condition_try_def param_float_def)

text \<open>
  \<^bold>\<open>C7.\<close> \<^verbatim>\<open>find_image_position\<close> raises its \<^verbatim>\<open>ValueError\<close> exactly when the object
  height is unset; after \<^verbatim>\<open>set_object_height\<close> with any real number it does not raise it.
  In particular a system whose height was never set gets the error, not a result for
  height 0.
\<close>

theorem find_image_position_ValueError_iff:
  "(find_image_position s rays = Inl ValueError) = (object_height s = None)
   \<and> find_image_position (set_object_height s h) rays \<noteq> Inl ValueError
   \<and> find_image_position init_system rays = Inl ValueError"
proof -
  have iff: "(find_image_position s rays = Inl ValueError) = (object_height s = None)" for s
    by (auto simp add: find_image_position_def Let_def split: option.splits prod.splits)
  show ?thesis
    by (simp add: iff set_object_height_def init_system_def)
qed


end
